theory Spec2Isabelle
  imports Complex_Main
begin

section \<open>Python values used by sinyal1.py\<close>

text \<open>
  A Python float is a binary64 number.  It is modelled by the real number it stands for,
  and the result of an operation is rounded to the nearest binary64 number, ties to the
  even mantissa, by the function \<open>fl\<close> below: in \<open>statistics.mean\<close>, \<open>statistics.pstdev\<close>,
  \<open>sma\<close>, \<open>bollinger\<close> and in the arithmetic of the two signal evaluators of \<open>main\<close>.
  Infinities and NaN are outside the model: a result of magnitude \<open>2 powi 1024\<close> or more,
  where the machine gives \<open>inf\<close>, is rounded as if the exponent range had no upper end.  The
  loops of \<open>rsi\<close> and \<open>atr\<close> are given with exact arithmetic.  Python integers are
  \<^typ>\<open>int\<close>.  An exception that a statement can raise is a value of \<open>error\<close>; a function that
  can raise returns \<open>error + 'a\<close> with the exception on the left.  The value \<open>None\<close> that the
  indicators return on a short series is \<^const>\<open>None\<close> of an \<open>option\<close>.
\<close>

datatype error =
  IndexError | ZeroDivisionError | StatisticsError | TypeError | ValueError | RequestError

section \<open>Rounding to binary64\<close>

text \<open>The integer nearest to \<open>x\<close>; of two equally near ones the even one.\<close>

definition round_half_even :: "real \<Rightarrow> int" where
  "round_half_even x =
     (let n = \<lfloor>x\<rfloor>; r = x - of_int n
      in if r < 1 / 2 then n
         else if 1 / 2 < r then n + 1
         else if even n then n else n + 1)"

text \<open>
  \<open>binade x n\<close> is the largest \<open>e\<close> among the \<open>n\<close> exponents \<open>-1021, \<dots>, n - 1022\<close> with
  \<open>2 powi e \<le> \<bar>x\<bar>\<close>, and \<open>-1022\<close> when there is none.  The exponent of a binary64 number runs
  from \<open>-1022\<close>, which the subnormal numbers share, to \<open>1023\<close>.
\<close>

primrec binade :: "real \<Rightarrow> nat \<Rightarrow> int" where
  "binade x 0 = - 1022"
| "binade x (Suc n) = (if 2 powi (int n - 1021) \<le> \<bar>x\<bar> then int n - 1021 else binade x n)"

definition float_exponent :: "real \<Rightarrow> int" where
  "float_exponent x = binade x 2045"

text \<open>
  \<open>fl x\<close>: \<open>x\<close> rounded to a multiple of the unit in the last place of its binade, a
  mantissa of 53 bits.
\<close>

definition fl :: "real \<Rightarrow> real" where
  "fl x = of_int (round_half_even (x / 2 powi (float_exponent x - 52)))
            * 2 powi (float_exponent x - 52)"

section \<open>Lists and statistics\<close>

text \<open>\<open>xs[i]\<close> for a Python list: a negative index counts from the end.\<close>

definition py_index :: "'a list \<Rightarrow> int \<Rightarrow> error + 'a" where
  "py_index xs i =
     (if 0 \<le> i \<and> i < int (length xs) then Inr (xs ! nat i)
      else if i < 0 \<and> - int (length xs) \<le> i then Inr (xs ! nat (int (length xs) + i))
      else Inl IndexError)"

text \<open>
  \<open>xs[-p:]\<close>: for positive \<open>p\<close> the last \<open>p\<close> elements (all of them when the list is
  shorter), for \<open>p = 0\<close> the whole list (\<open>-0\<close> is \<open>0\<close>), for negative \<open>p\<close> the list
  without its first \<open>-p\<close> elements.
\<close>

definition py_last_slice :: "'a list \<Rightarrow> int \<Rightarrow> 'a list" where
  "py_last_slice xs p =
     (if 0 < p then drop (length xs - nat p) xs else drop (nat (- p)) xs)"

text \<open>
  \<open>statistics.mean\<close> and \<open>statistics.pstdev\<close>; both raise on empty data.  CPython (3.11)
  computes the mean and the variance of the given floats exactly, as fractions, and
  rounds once: the mean when it converts the fraction to a float, the deviation when it
  takes the correctly rounded square root of the fraction.
\<close>

definition mean :: "real list \<Rightarrow> error + real" where
  "mean xs = (if xs = [] then Inl StatisticsError
              else Inr (fl (sum_list xs / real (length xs))))"

definition pstdev :: "real list \<Rightarrow> error + real" where
  "pstdev xs =
     (if xs = [] then Inl StatisticsError
      else let mu = sum_list xs / real (length xs)
           in Inr (fl (sqrt (sum_list (map (\<lambda>x. (x - mu)\<^sup>2) xs) / real (length xs)))))"

section \<open>Constants\<close>

text \<open>A float literal denotes the binary64 number nearest to the decimal written.\<close>

definition LOOKBACK :: int where "LOOKBACK = 200"
definition MIN_LONG_PCT :: real where "MIN_LONG_PCT = fl (15 / 10)"
definition MIN_SHORT_PCT :: real where "MIN_SHORT_PCT = fl (15 / 10)"
definition SL_ATR_MULT :: real where "SL_ATR_MULT = fl (12 / 10)"
definition TP_ATR_MULT :: real where "TP_ATR_MULT = fl (18 / 10)"
definition RR_MIN :: real where "RR_MIN = fl (12 / 10)"

section \<open>Indicators\<close>

definition sma :: "real list \<Rightarrow> int \<Rightarrow> error + real option" where
  "sma values period =
     (if int (length values) < period then Inr None
      else case mean (py_last_slice values period) of
             Inl e \<Rightarrow> Inl e
           | Inr m \<Rightarrow> Inr (Some m))"

text \<open>
  The loop of \<open>rsi\<close> over \<open>range(1, period + 1)\<close>, with the two lists it appends to.
\<close>

fun rsi_loop ::
  "real list \<Rightarrow> int \<Rightarrow> int list \<Rightarrow> real list \<Rightarrow> real list \<Rightarrow> error + (real list \<times> real list)"
where
  "rsi_loop closes period [] gains losses = Inr (gains, losses)"
| "rsi_loop closes period (i # rest) gains losses =
     (case py_index closes (- (period + 1) + i) of
        Inl e \<Rightarrow> Inl e
      | Inr c1 \<Rightarrow>
          (case py_index closes (- (period + 2) + i) of
             Inl e \<Rightarrow> Inl e
           | Inr c0 \<Rightarrow>
               (let change = c1 - c0
                in rsi_loop closes period rest
                     (gains @ [max change 0]) (losses @ [max (- change) 0]))))"

definition rsi :: "real list \<Rightarrow> int \<Rightarrow> error + real option" where
  "rsi closes period =
     (if int (length closes) < period + 1 then Inr None
      else case rsi_loop closes period [1..period] [] [] of
             Inl e \<Rightarrow> Inl e
           | Inr (gains, losses) \<Rightarrow>
               if period = 0 then Inl ZeroDivisionError
               else let avg_gain = sum_list gains / real_of_int period;
                        avg_loss = sum_list losses / real_of_int period
                    in if avg_loss = 0 then Inr (Some 100)
                       else let rs = avg_gain / avg_loss
                            in if 1 + rs = 0 then Inl ZeroDivisionError
                               else Inr (Some (100 - 100 / (1 + rs))))"

definition bollinger ::
  "real list \<Rightarrow> int \<Rightarrow> real \<Rightarrow> error + (real option \<times> real option \<times> real option)"
where
  "bollinger closes period mult =
     (if int (length closes) < period then Inr (None, None, None)
      else case sma closes period of
             Inl e \<Rightarrow> Inl e
           | Inr mid_opt \<Rightarrow>
               (let window = py_last_slice closes period
                in case (if 2 \<le> length window then pstdev window else Inr 0) of
                     Inl e \<Rightarrow> Inl e
                   | Inr std \<Rightarrow>
                       (case mid_opt of
                          None \<Rightarrow> Inl TypeError
                        | Some mid \<Rightarrow>
                            (let upper = fl (mid + fl (mult * std));
                                 lower = fl (mid - fl (mult * std))
                             in Inr (Some lower, Some mid, Some upper)))))"

text \<open>The loop of \<open>atr\<close> over \<open>range(-period, 0)\<close>.\<close>

fun atr_loop ::
  "real list \<Rightarrow> real list \<Rightarrow> real list \<Rightarrow> int list \<Rightarrow> real list \<Rightarrow> error + real list"
where
  "atr_loop highs lows closes [] trs = Inr trs"
| "atr_loop highs lows closes (i # rest) trs =
     (case py_index highs i of
        Inl e \<Rightarrow> Inl e
      | Inr high \<Rightarrow>
          (case py_index lows i of
             Inl e \<Rightarrow> Inl e
           | Inr low \<Rightarrow>
               (case py_index closes (i - 1) of
                  Inl e \<Rightarrow> Inl e
                | Inr prev_close \<Rightarrow>
                    (let tr = max (high - low) (max \<bar>high - prev_close\<bar> \<bar>low - prev_close\<bar>)
                     in atr_loop highs lows closes rest (trs @ [tr])))))"

definition atr :: "real list \<Rightarrow> real list \<Rightarrow> real list \<Rightarrow> int \<Rightarrow> error + real option" where
  "atr highs lows closes period =
     (if int (length highs) < period + 1 then Inr None
      else case atr_loop highs lows closes [- period..- 1] [] of
             Inl e \<Rightarrow> Inl e
           | Inr trs \<Rightarrow>
               if trs = [] then Inl ZeroDivisionError
               else Inr (Some (sum_list trs / real (length trs))))"

section \<open>The words of the specification about the indicators\<close>

text \<open>
  The specification speaks of the last \<open>period\<close> consecutive price changes, of their
  average gain and loss, of the population standard deviation and of the true range of
  a bar.  These definitions follow its words; the theorems below compare them with what
  the loops of the source compute.  \<open>change_at\<close> and \<open>true_range_at\<close> name the value
  that one iteration of the loop of \<open>rsi\<close> and of \<open>atr\<close> reads at index \<open>i\<close>.
\<close>

definition deltas :: "real list \<Rightarrow> real list" where
  "deltas xs = map (\<lambda>(a, b). b - a) (zip xs (tl xs))"

definition window_changes :: "real list \<Rightarrow> int \<Rightarrow> real list" where
  "window_changes closes period = deltas (py_last_slice closes (period + 1))"

definition change_at :: "real list \<Rightarrow> int \<Rightarrow> int \<Rightarrow> real" where
  "change_at closes period i =
     closes ! nat (int (length closes) + (- (period + 1) + i))
     - closes ! nat (int (length closes) + (- (period + 2) + i))"

definition avg_gain :: "real list \<Rightarrow> int \<Rightarrow> real" where
  "avg_gain closes period =
     sum_list (map (\<lambda>c. max c 0) (window_changes closes period)) / real_of_int period"

definition avg_loss :: "real list \<Rightarrow> int \<Rightarrow> real" where
  "avg_loss closes period =
     sum_list (map (\<lambda>c. max (- c) 0) (window_changes closes period)) / real_of_int period"

definition population_std :: "real list \<Rightarrow> real" where
  "population_std xs =
     sqrt (sum_list (map (\<lambda>x. (x - sum_list xs / real (length xs))\<^sup>2) xs) / real (length xs))"

text \<open>
  \<open>band_offset\<close> names the float \<open>mult * std\<close> that \<open>bollinger\<close> adds to the mid line and
  subtracts from it.
\<close>

definition band_offset :: "real list \<Rightarrow> int \<Rightarrow> real \<Rightarrow> real" where
  "band_offset closes period mult =
     fl (mult * fl (population_std (py_last_slice closes period)))"

definition true_range_at :: "real list \<Rightarrow> real list \<Rightarrow> real list \<Rightarrow> int \<Rightarrow> real" where
  "true_range_at highs lows closes i =
     max (highs ! nat (int (length highs) + i) - lows ! nat (int (length lows) + i))
       (max \<bar>highs ! nat (int (length highs) + i) - closes ! nat (int (length closes) + (i - 1))\<bar>
            \<bar>lows ! nat (int (length lows) + i) - closes ! nat (int (length closes) + (i - 1))\<bar>)"

section \<open>Library calls\<close>

text \<open>
  Four calls of the Python library are taken as parameters: \<open>float(s)\<close> on a field of a
  CSV row (\<open>None\<close> when it raises \<open>ValueError\<close>), the formats \<open>f"{x:.8f}"\<close> and
  \<open>f"{x:.2f}"\<close>, and the local-time rendering
  \<open>datetime.fromtimestamp(ms / 1000, tz=utc).astimezone(tzlocal()).strftime("%Y-%m-%d %H:%M:%S")\<close>.
\<close>

record pylib =
  float_of :: "string \<Rightarrow> real option"
  fmt8 :: "real \<Rightarrow> string"
  fmt2 :: "real \<Rightarrow> string"
  strftime_local :: "int \<Rightarrow> string"

definition human_time_ms :: "pylib \<Rightarrow> int \<Rightarrow> string" where
  "human_time_ms lib ms = strftime_local lib ms"

text \<open>\<open>s.replace(' ', '_')\<close>\<close>

definition replace_space :: "string \<Rightarrow> string" where
  "replace_space s = map (\<lambda>c. if c = CHR '' '' then CHR ''_'' else c) s"

section \<open>Positions and the state of the process\<close>

text \<open>
  A row of \<open>positions.csv\<close> as \<open>csv.DictReader\<close> returns it: thirteen columns, every
  value a string (the column \<open>id\<close> is the field \<open>pos_id\<close>).
\<close>

record position =
  pos_id :: string
  symbol :: string
  direction :: string
  entry :: string
  sl :: string
  tp1 :: string
  tp2 :: string
  signal_time :: string
  rr :: string
  status :: string
  tp1_hit_time :: string
  tp2_hit_time :: string
  sl_hit_time :: string

text \<open>
  What \<open>long_signal\<close> and \<open>short_signal\<close> are called with; the panel they print and the
  line they log show exactly these values.
\<close>

record signal =
  sig_symbol :: string
  sig_direction :: string
  sig_price :: real
  sig_sl :: real
  sig_tp1 :: real
  sig_tp2 :: real
  sig_rr :: real
  sig_close_time :: int

text \<open>
  The state that outlives a scan cycle: the contents of \<open>positions.csv\<close>, the globals
  \<open>last_alert_candle\<close>, \<open>new_positions_this_cycle\<close> and \<open>stats\<close>, and the signals
  printed so far, oldest first.
\<close>

record state =
  ledger :: "position list"
  last_alert_candle :: "string \<rightharpoonup> int"
  new_positions_this_cycle :: "string set"
  stats_cycles :: nat
  stats_long :: nat
  stats_short :: nat
  signals :: "signal list"

type_synonym ohlc = "string \<rightharpoonup> real \<times> real \<times> real"

definition add_position ::
  "pylib \<Rightarrow> string \<Rightarrow> string \<Rightarrow> real \<Rightarrow> real \<Rightarrow> real \<Rightarrow> real \<Rightarrow> string \<Rightarrow> real
     \<Rightarrow> position list \<Rightarrow> string \<times> position list"
where
  "add_position lib symb dir entry_v sl_v tp1_v tp2_v signal_time_str rr_v rows =
     (let new_id = symb @ ''_'' @ dir @ ''_'' @ replace_space signal_time_str
      in (new_id,
          rows @ [\<lparr> pos_id = new_id, symbol = symb, direction = dir,
                    entry = fmt8 lib entry_v, sl = fmt8 lib sl_v,
                    tp1 = fmt8 lib tp1_v, tp2 = fmt8 lib tp2_v,
                    signal_time = signal_time_str, rr = fmt2 lib rr_v,
                    status = ''PENDING'',
                    tp1_hit_time = '''', tp2_hit_time = '''', sl_hit_time = '''' \<rparr>]))"

definition long_signal ::
  "pylib \<Rightarrow> string \<Rightarrow> real \<Rightarrow> real \<Rightarrow> real \<Rightarrow> real \<Rightarrow> real \<Rightarrow> int \<Rightarrow> state \<Rightarrow> state"
where
  "long_signal lib symb price sl_v tp1_v tp2_v rr_v close_time_ms st =
     (let signal_time_str = human_time_ms lib close_time_ms;
          (new_id, rows) =
             add_position lib symb ''LONG'' price sl_v tp1_v tp2_v signal_time_str rr_v (ledger st)
      in st \<lparr> signals := signals st @
                  [\<lparr> sig_symbol = symb, sig_direction = ''LONG'', sig_price = price,
                     sig_sl = sl_v, sig_tp1 = tp1_v, sig_tp2 = tp2_v, sig_rr = rr_v,
                     sig_close_time = close_time_ms \<rparr>],
               ledger := rows,
               new_positions_this_cycle := insert new_id (new_positions_this_cycle st) \<rparr>)"

definition short_signal ::
  "pylib \<Rightarrow> string \<Rightarrow> real \<Rightarrow> real \<Rightarrow> real \<Rightarrow> real \<Rightarrow> real \<Rightarrow> int \<Rightarrow> state \<Rightarrow> state"
where
  "short_signal lib symb price sl_v tp1_v tp2_v rr_v close_time_ms st =
     (let signal_time_str = human_time_ms lib close_time_ms;
          (new_id, rows) =
             add_position lib symb ''SHORT'' price sl_v tp1_v tp2_v signal_time_str rr_v (ledger st)
      in st \<lparr> signals := signals st @
                  [\<lparr> sig_symbol = symb, sig_direction = ''SHORT'', sig_price = price,
                     sig_sl = sl_v, sig_tp1 = tp1_v, sig_tp2 = tp2_v, sig_rr = rr_v,
                     sig_close_time = close_time_ms \<rparr>],
               ledger := rows,
               new_positions_this_cycle := insert new_id (new_positions_this_cycle st) \<rparr>)"

section \<open>update\_positions\<close>

text \<open>The four \<open>float(row[...])\<close> of one row, in the order of the source.\<close>

definition parse_levels :: "pylib \<Rightarrow> position \<Rightarrow> error + (real \<times> real \<times> real \<times> real)" where
  "parse_levels lib row =
     (case float_of lib (entry row) of
        None \<Rightarrow> Inl ValueError
      | Some entry_v \<Rightarrow>
          (case float_of lib (sl row) of
             None \<Rightarrow> Inl ValueError
           | Some sl_v \<Rightarrow>
               (case float_of lib (tp1 row) of
                  None \<Rightarrow> Inl ValueError
                | Some tp1_v \<Rightarrow>
                    (case float_of lib (tp2 row) of
                       None \<Rightarrow> Inl ValueError
                     | Some tp2_v \<Rightarrow> Inr (entry_v, sl_v, tp1_v, tp2_v)))))"

text \<open>
  The body of the loop over the rows, for one row: the row as the loop leaves it, or the
  exception it raises.
\<close>

definition check_position ::
  "pylib \<Rightarrow> ohlc \<Rightarrow> string set \<Rightarrow> string \<Rightarrow> position \<Rightarrow> error + position"
where
  "check_position lib latest_ohlc grace now_str row =
     (if pos_id row \<in> grace then Inr row
      else if status row \<noteq> ''PENDING'' \<and> status row \<noteq> ''TP1_HIT'' then Inr row
      else case latest_ohlc (symbol row) of
             None \<Rightarrow> Inr row
           | Some (close_price, high_price, low_price) \<Rightarrow>
               (case parse_levels lib row of
                  Inl e \<Rightarrow> Inl e
                | Inr (entry_v, sl_v, tp1_v, tp2_v) \<Rightarrow>
                    if direction row = ''LONG'' then
                      if low_price \<le> sl_v \<and> sl_hit_time row = '''' then
                        Inr (row \<lparr> sl_hit_time := now_str, status := ''STOPPED'' \<rparr>)
                      else if high_price \<ge> tp2_v \<and> tp2_hit_time row = '''' then
                        Inr ((if tp1_hit_time row = '''' then row \<lparr> tp1_hit_time := now_str \<rparr>
                              else row)
                             \<lparr> tp2_hit_time := now_str, status := ''CLOSED_TP2'' \<rparr>)
                      else if high_price \<ge> tp1_v \<and> tp1_hit_time row = '''' then
                        Inr (row \<lparr> tp1_hit_time := now_str, status := ''TP1_HIT'' \<rparr>)
                      else Inr row
                    else if direction row = ''SHORT'' then
                      if high_price \<ge> sl_v \<and> sl_hit_time row = '''' then
                        Inr (row \<lparr> sl_hit_time := now_str, status := ''STOPPED'' \<rparr>)
                      else if low_price \<le> tp2_v \<and> tp2_hit_time row = '''' then
                        Inr ((if tp1_hit_time row = '''' then row \<lparr> tp1_hit_time := now_str \<rparr>
                              else row)
                             \<lparr> tp2_hit_time := now_str, status := ''CLOSED_TP2'' \<rparr>)
                      else if low_price \<le> tp1_v \<and> tp1_hit_time row = '''' then
                        Inr (row \<lparr> tp1_hit_time := now_str, status := ''TP1_HIT'' \<rparr>)
                      else Inr row
                    else Inr row))"

fun update_rows ::
  "pylib \<Rightarrow> ohlc \<Rightarrow> string set \<Rightarrow> string \<Rightarrow> position list \<Rightarrow> error + position list"
where
  "update_rows lib latest_ohlc grace now_str [] = Inr []"
| "update_rows lib latest_ohlc grace now_str (row # rest) =
     (case check_position lib latest_ohlc grace now_str row of
        Inl e \<Rightarrow> Inl e
      | Inr row' \<Rightarrow>
          (case update_rows lib latest_ohlc grace now_str rest of
             Inl e \<Rightarrow> Inl e
           | Inr rest' \<Rightarrow> Inr (row' # rest')))"

text \<open>
  One evaluation pass.  \<open>now_str\<close> is the local time the pass reads once, before the loop.
  An exception leaves \<open>update_positions\<close> before \<open>save_positions\<close> and before the set is
  cleared: the state is the one the pass started from, and the exception is returned
  with it.  The source writes the file only when some row was changed; the rows it would
  write otherwise are the rows it read, so the ledger is the list of rows of the loop in
  both cases.
\<close>

definition update_positions :: "pylib \<Rightarrow> string \<Rightarrow> ohlc \<Rightarrow> state \<Rightarrow> error option \<times> state" where
  "update_positions lib now_str latest_ohlc st =
     (case update_rows lib latest_ohlc (new_positions_this_cycle st) now_str (ledger st) of
        Inl e \<Rightarrow> (Some e, st)
      | Inr rows \<Rightarrow> (None, st \<lparr> ledger := rows, new_positions_this_cycle := {} \<rparr>))"

section \<open>The scan loop of main\<close>

text \<open>
  The answer of the exchange to a kline request: \<open>None\<close> when the request fails or the
  answer is not a success, else the four arrays of the answer, already numbers.
\<close>

record kline_data =
  k_time :: "int list"
  k_close :: "real list"
  k_high :: "real list"
  k_low :: "real list"

definition get_klines ::
  "kline_data option \<Rightarrow> error + (real list \<times> real list \<times> real list \<times> int list)"
where
  "get_klines resp =
     (case resp of
        None \<Rightarrow> Inl RequestError
      | Some d \<Rightarrow>
          (let n = min LOOKBACK (int (length (k_close d)))
           in Inr (py_last_slice (k_high d) n, py_last_slice (k_low d) n,
                   py_last_slice (k_close d) n,
                   py_last_slice (map (\<lambda>t. t * 1000) (k_time d)) n)))"

definition has_open :: "position list \<Rightarrow> string \<Rightarrow> string \<Rightarrow> bool" where
  "has_open open_positions symb dir =
     (\<exists>row \<in> set open_positions.
        symbol row = symb \<and> direction row = dir
        \<and> (status row = ''PENDING'' \<or> status row = ''TP1_HIT''))"

text \<open>
  The LONG block of the loop body.  Every operation on floats rounds its result; the
  factors \<open>0.5\<close> and \<open>100\<close> are binary64 numbers.  The division by \<open>price\<close> raises when
  the price is zero; nothing has been changed by then.
\<close>

definition evaluate_long ::
  "pylib \<Rightarrow> string \<Rightarrow> real \<Rightarrow> real \<Rightarrow> real \<Rightarrow> real \<Rightarrow> int \<Rightarrow> bool \<Rightarrow> state \<Rightarrow> error + state"
where
  "evaluate_long lib symb price lower r a close_time has_open_long st =
     (let long_cond = (price < lower \<and> r < 30)
      in if long_cond \<and> \<not> has_open_long then
           (let last = last_alert_candle st (symb @ ''_LONG'')
            in if last \<noteq> Some close_time then
                 (let sl_v = fl (price - fl (SL_ATR_MULT * a));
                      tp2_v = fl (price + fl (TP_ATR_MULT * a));
                      tp1_v = fl (price + fl (fl (tp2_v - price) * (5 / 10)))
                  in if price = 0 then Inl ZeroDivisionError
                     else
                       (let pct = fl (fl (fl (tp2_v - price) / price) * 100)
                        in if pct \<ge> MIN_LONG_PCT then
                             (let risk = fl (price - sl_v);
                                  reward = fl (tp2_v - price);
                                  rr_v = (if risk > 0 then fl (reward / risk) else 0)
                              in if rr_v \<ge> RR_MIN then
                                   Inr ((long_signal lib symb price sl_v tp1_v tp2_v rr_v close_time st)
                                        \<lparr> stats_long := stats_long st + 1,
                                          last_alert_candle :=
                                            (last_alert_candle st)(symb @ ''_LONG'' \<mapsto> close_time) \<rparr>)
                                 else Inr st)
                           else Inr st))
               else Inr st)
         else Inr st)"

definition evaluate_short ::
  "pylib \<Rightarrow> string \<Rightarrow> real \<Rightarrow> real \<Rightarrow> real \<Rightarrow> real \<Rightarrow> int \<Rightarrow> bool \<Rightarrow> state \<Rightarrow> error + state"
where
  "evaluate_short lib symb price upper r a close_time has_open_short st =
     (let short_cond = (price > upper \<and> r > 70)
      in if short_cond \<and> \<not> has_open_short then
           (let last = last_alert_candle st (symb @ ''_SHORT'')
            in if last \<noteq> Some close_time then
                 (let sl_v = fl (price + fl (SL_ATR_MULT * a));
                      tp2_v = fl (price - fl (TP_ATR_MULT * a));
                      tp1_v = fl (price - fl (fl (price - tp2_v) * (5 / 10)))
                  in if price = 0 then Inl ZeroDivisionError
                     else
                       (let pct = fl (fl (fl (price - tp2_v) / price) * 100)
                        in if pct \<ge> MIN_SHORT_PCT then
                             (let risk = fl (sl_v - price);
                                  reward = fl (price - tp2_v);
                                  rr_v = (if risk > 0 then fl (reward / risk) else 0)
                              in if rr_v \<ge> RR_MIN then
                                   Inr ((short_signal lib symb price sl_v tp1_v tp2_v rr_v close_time st)
                                        \<lparr> stats_short := stats_short st + 1,
                                          last_alert_candle :=
                                            (last_alert_candle st)(symb @ ''_SHORT'' \<mapsto> close_time) \<rparr>)
                                 else Inr st)
                           else Inr st))
               else Inr st)
         else Inr st)"

text \<open>
  The body of the loop over the symbols, for one symbol and the answer to its kline
  request.  Every exception is caught by the \<open>except\<close> of the body and ends the body;
  what the body changed before stays changed.  \<open>open_positions\<close> is the ledger as it was
  read at the start of the cycle.
\<close>

definition scan_symbol ::
  "pylib \<Rightarrow> position list \<Rightarrow> string \<Rightarrow> kline_data option \<Rightarrow> state \<times> ohlc \<Rightarrow> state \<times> ohlc"
where
  "scan_symbol lib open_positions symb resp acc =
     (case acc of (st, latest_ohlc) \<Rightarrow>
      (case get_klines resp of
         Inl e \<Rightarrow> acc
       | Inr (highs, lows, closes, times_ms) \<Rightarrow>
           if closes = [] then acc
           else
             (case py_index closes (- 1) of
                Inl e \<Rightarrow> acc
              | Inr price \<Rightarrow>
             (case py_index highs (- 1) of
                Inl e \<Rightarrow> acc
              | Inr high_last \<Rightarrow>
             (case py_index lows (- 1) of
                Inl e \<Rightarrow> acc
              | Inr low_last \<Rightarrow>
             (case py_index times_ms (- 1) of
                Inl e \<Rightarrow> acc
              | Inr close_time \<Rightarrow>
                 (let latest_ohlc' = latest_ohlc(symb \<mapsto> (price, high_last, low_last))
                  in case bollinger closes 20 2 of
                       Inl e \<Rightarrow> (st, latest_ohlc')
                     | Inr (lower, mid, upper) \<Rightarrow>
                  (case rsi closes 14 of
                       Inl e \<Rightarrow> (st, latest_ohlc')
                     | Inr r \<Rightarrow>
                  (case atr highs lows closes 14 of
                       Inl e \<Rightarrow> (st, latest_ohlc')
                     | Inr a \<Rightarrow>
                         if lower = None \<or> upper = None \<or> r = None \<or> a = None
                         then (st, latest_ohlc')
                         else
                           (let has_open_long = has_open open_positions symb ''LONG'';
                                has_open_short = has_open open_positions symb ''SHORT''
                            in case evaluate_long lib symb price (the lower) (the r) (the a)
                                      close_time has_open_long st of
                                 Inl e \<Rightarrow> (st, latest_ohlc')
                               | Inr st1 \<Rightarrow>
                                   (case evaluate_short lib symb price (the upper) (the r) (the a)
                                           close_time has_open_short st1 of
                                      Inl e \<Rightarrow> (st1, latest_ohlc')
                                    | Inr st2 \<Rightarrow> (st2, latest_ohlc'))))))))))))"

text \<open>
  The loop over the symbols: \<open>inputs\<close> pairs every symbol of the cycle, in the order
  of the scan, with the answer to its kline request.
\<close>

fun scan_all ::
  "pylib \<Rightarrow> position list \<Rightarrow> (string \<times> kline_data option) list \<Rightarrow> state \<times> ohlc \<Rightarrow> state \<times> ohlc"
where
  "scan_all lib open_positions [] acc = acc"
| "scan_all lib open_positions ((symb, resp) # rest) acc =
     scan_all lib open_positions rest (scan_symbol lib open_positions symb resp acc)"

text \<open>
  One turn of the \<open>while True\<close> loop: first the scan of the symbols, which starts
  from an empty \<open>latest_ohlc\<close> and from the ledger as \<open>load_positions\<close> reads it,
  then the call of \<open>update_positions\<close>, whose exception, if any, ends the process.
\<close>

definition scan_cycle ::
  "pylib \<Rightarrow> (string \<times> kline_data option) list \<Rightarrow> state \<Rightarrow> state \<times> ohlc"
where
  "scan_cycle lib inputs st =
     (let st0 = st \<lparr> stats_cycles := stats_cycles st + 1 \<rparr>;
          open_positions = ledger st0
      in scan_all lib open_positions inputs (st0, Map.empty))"

definition run_cycle ::
  "pylib \<Rightarrow> string \<Rightarrow> (string \<times> kline_data option) list \<Rightarrow> state \<Rightarrow> error option \<times> state"
where
  "run_cycle lib now_str inputs st =
     (case scan_cycle lib inputs st of
        (st1, latest_ohlc) \<Rightarrow> update_positions lib now_str latest_ohlc st1)"

text \<open>
  The turns of the loop one after the other, each with the time its pass reads and the
  answers of the exchange; an exception ends the run.
\<close>

fun run_cycles ::
  "pylib \<Rightarrow> (string \<times> (string \<times> kline_data option) list) list \<Rightarrow> state \<Rightarrow> error option \<times> state"
where
  "run_cycles lib [] st = (None, st)"
| "run_cycles lib ((now_str, inputs) # rest) st =
     (case run_cycle lib now_str inputs st of
        (Some e, st') \<Rightarrow> (Some e, st')
      | (None, st') \<Rightarrow> run_cycles lib rest st')"

section \<open>The words of the specification about a LONG signal, and example values\<close>

text \<open>
  \<open>spec_long_signal\<close> is the signal the specification describes for a price and an ATR:
  stop \<open>price - 1.2 atr\<close>, second target \<open>price + 1.8 atr\<close>, first target halfway to
  the second, and the ratio of reward to risk.  \<open>example_lib\<close> gives the library calls at
  the arguments of the worked examples (the local time zone is UTC there);
  \<open>empty_state\<close> is a process that has just started on an empty ledger.
\<close>

definition spec_long_signal :: "string \<Rightarrow> real \<Rightarrow> real \<Rightarrow> int \<Rightarrow> signal" where
  "spec_long_signal symb price a close_time =
     (let stop = price - 12 / 10 * a;
          target2 = price + 18 / 10 * a
      in \<lparr> sig_symbol = symb, sig_direction = ''LONG'', sig_price = price,
           sig_sl = stop,
           sig_tp1 = price + 5 / 10 * (target2 - price),
           sig_tp2 = target2,
           sig_rr = (target2 - price) / (price - stop),
           sig_close_time = close_time \<rparr>)"

definition example_lib :: pylib where
  "example_lib =
     \<lparr> float_of = map_of [(''100.00000000'', 100), (''97.60000000'', 976 / 10),
                           (''101.80000000'', 1018 / 10), (''103.60000000'', 1036 / 10)],
       fmt8 = (\<lambda>x. if x = 100 then ''100.00000000'' else if x = 976 / 10 then ''97.60000000''
                   else if x = 1018 / 10 then ''101.80000000''
                   else if x = 1036 / 10 then ''103.60000000'' else ''0.00000000''),
       fmt2 = (\<lambda>x. if x = 15 / 10 then ''1.50'' else ''0.00''),
       strftime_local = (\<lambda>ms. if ms = 1700000100000 then ''2023-11-14 22:15:00''
                              else ''2023-11-14 22:30:00'') \<rparr>"

definition empty_state :: state where
  "empty_state =
     \<lparr> ledger = [], last_alert_candle = Map.empty, new_positions_this_cycle = {},
       stats_cycles = 0, stats_long = 0, stats_short = 0, signals = [] \<rparr>"

section \<open>Properties of the rounding\<close>

lemma round_half_even_cases:
  "\<bar>of_int (round_half_even x) - x\<bar> < 1 / 2
   \<or> (\<bar>of_int (round_half_even x) - x\<bar> = 1 / 2 \<and> even (round_half_even x))"
proof -
  have f: "of_int \<lfloor>x\<rfloor> \<le> x" "x < of_int \<lfloor>x\<rfloor> + 1" by linarith+
  consider "x - of_int \<lfloor>x\<rfloor> < 1 / 2" | "1 / 2 < x - of_int \<lfloor>x\<rfloor>"
    | "x - of_int \<lfloor>x\<rfloor> = 1 / 2" "even \<lfloor>x\<rfloor>" | "x - of_int \<lfloor>x\<rfloor> = 1 / 2" "odd \<lfloor>x\<rfloor>"
    by linarith
  then show ?thesis
  proof cases
    case 1
    then have "round_half_even x = \<lfloor>x\<rfloor>" by (simp add: round_half_even_def Let_def)
    with 1 f show ?thesis by simp
  next
    case 2
    then have "round_half_even x = \<lfloor>x\<rfloor> + 1" by (simp add: round_half_even_def Let_def)
    with 2 f show ?thesis by simp
  next
    case 3
    then have "round_half_even x = \<lfloor>x\<rfloor>" by (simp add: round_half_even_def Let_def)
    with 3 f show ?thesis by simp
  next
    case 4
    then have "round_half_even x = \<lfloor>x\<rfloor> + 1" by (simp add: round_half_even_def Let_def)
    with 4 f show ?thesis by simp
  qed
qed

lemma round_half_even_error: "\<bar>of_int (round_half_even x) - x\<bar> \<le> 1 / 2"
  using round_half_even_cases [of x] by linarith

lemma round_half_even_unique:
  assumes "\<bar>of_int k - x\<bar> < 1 / 2 \<or> (\<bar>of_int k - x\<bar> = 1 / 2 \<and> even k)"
  shows "round_half_even x = k"
proof (rule ccontr)
  assume n: "round_half_even x \<noteq> k"
  let ?r = "round_half_even x"
  have d: "1 \<le> \<bar>(of_int ?r :: real) - of_int k\<bar>"
  proof -
    have "1 \<le> \<bar>?r - k\<bar>" using n by linarith
    then have "(1::real) \<le> of_int \<bar>?r - k\<bar>" by linarith
    then show ?thesis by simp
  qed
  have t: "\<bar>(of_int ?r :: real) - of_int k\<bar> \<le> \<bar>of_int ?r - x\<bar> + \<bar>of_int k - x\<bar>" by linarith
  from round_half_even_cases [of x] assms d t
  have e: "\<bar>of_int ?r - x\<bar> = 1 / 2" "even ?r" "\<bar>of_int k - x\<bar> = 1 / 2" "even k"
    by linarith+
  from e(1,3) n have "\<bar>(of_int ?r :: real) - of_int k\<bar> = 1"
    using d t by linarith
  then have "\<bar>?r - k\<bar> = 1"
    by (metis of_int_diff of_int_abs of_int_eq_1_iff)
  with e(2,4) show False by presburger
qed

lemma round_half_even_of_int [simp]: "round_half_even (of_int n) = n"
  by (rule round_half_even_unique) simp

lemma round_half_even_0 [simp]: "round_half_even 0 = 0"
  using round_half_even_of_int [of 0] by simp

lemma round_half_even_minus: "round_half_even (- x) = - round_half_even x"
proof (rule round_half_even_unique)
  have "\<bar>of_int (- round_half_even x) - (- x)\<bar> = \<bar>of_int (round_half_even x) - x\<bar>"
    by simp
  then show "\<bar>of_int (- round_half_even x) - - x\<bar> < 1 / 2
     \<or> (\<bar>of_int (- round_half_even x) - - x\<bar> = 1 / 2 \<and> even (- round_half_even x))"
    using round_half_even_cases [of x] by simp
qed

lemma round_half_even_mono:
  assumes "x \<le> y"
  shows "round_half_even x \<le> round_half_even y"
proof (rule ccontr)
  assume "\<not> round_half_even x \<le> round_half_even y"
  then have l: "round_half_even y + 1 \<le> round_half_even x" by simp
  then have l': "(of_int (round_half_even y) :: real) + 1 \<le> of_int (round_half_even x)"
    by (metis of_int_1 of_int_add of_int_le_iff)
  have "\<bar>of_int (round_half_even x) - x\<bar> \<le> 1 / 2" "\<bar>of_int (round_half_even y) - y\<bar> \<le> 1 / 2"
    by (rule round_half_even_error)+
  with l' assms have "x = y" by linarith
  with l show False by simp
qed

text \<open>The exponent found by \<open>binade\<close> is the one of the binade of \<open>x\<close>.\<close>

lemma binade_upper: "binade x n \<le> int n - 1022"
  by (induction n) auto

lemma binade_lower: "- 1022 \<le> binade x n"
  by (induction n) auto

lemma binade_le: "binade x n = - 1022 \<or> 2 powi (binade x n) \<le> \<bar>x\<bar>"
  by (induction n) auto

lemma binade_gt:
  "binade x n < int n - 1022 \<or> \<bar>x\<bar> < 2 powi (int n - 1021) \<Longrightarrow> \<bar>x\<bar> < 2 powi (binade x n + 1)"
proof (induction n)
  case 0
  then show ?case by simp
next
  case (Suc n)
  show ?case
  proof (cases "2 powi (int n - 1021) \<le> \<bar>x\<bar>")
    case True
    with Suc.prems show ?thesis by (simp add: algebra_simps)
  next
    case False
    then have "\<bar>x\<bar> < 2 powi (int n - 1021)" by simp
    with Suc.IH False show ?thesis by simp
  qed
qed

lemma binade_abs: "binade (- x) n = binade x n"
  by (induction n) auto

lemma binade_mono: "\<bar>x\<bar> \<le> \<bar>y\<bar> \<Longrightarrow> binade x n \<le> binade y n"
proof (induction n)
  case 0
  then show ?case by simp
next
  case (Suc n)
  then show ?case using binade_upper [of x n] by auto
qed

lemma float_exponent_range: "- 1022 \<le> float_exponent x" "float_exponent x \<le> 1023"
  using binade_lower [of x 2045] binade_upper [of x 2045] by (simp_all add: float_exponent_def)

lemma float_exponent_minus [simp]: "float_exponent (- x) = float_exponent x"
  by (simp add: float_exponent_def binade_abs)

lemma float_exponent_mono: "\<bar>x\<bar> \<le> \<bar>y\<bar> \<Longrightarrow> float_exponent x \<le> float_exponent y"
  by (simp add: float_exponent_def binade_mono)

lemma float_exponent_le: "float_exponent x = - 1022 \<or> 2 powi (float_exponent x) \<le> \<bar>x\<bar>"
  using binade_le [of x 2045] by (simp add: float_exponent_def)

lemma float_exponent_gt:
  "float_exponent x < 1023 \<or> \<bar>x\<bar> < 2 powi 1024 \<Longrightarrow> \<bar>x\<bar> < 2 powi (float_exponent x + 1)"
  using binade_gt [of x 2045] by (simp add: float_exponent_def)

lemma float_exponent_eqI:
  assumes "- 1022 \<le> e" "e \<le> 1023" "2 powi e \<le> \<bar>x\<bar> \<or> e = - 1022" "\<bar>x\<bar> < 2 powi (e + 1)"
  shows "float_exponent x = e"
proof (rule antisym)
  show "float_exponent x \<le> e"
  proof (rule ccontr)
    assume "\<not> float_exponent x \<le> e"
    then have a: "e + 1 \<le> float_exponent x" by simp
    then have "float_exponent x \<noteq> - 1022" using assms(1) by simp
    then have "2 powi (float_exponent x) \<le> \<bar>x\<bar>" using float_exponent_le [of x] by simp
    moreover have "(2::real) powi (e + 1) \<le> 2 powi (float_exponent x)"
      using a by (intro power_int_increasing) simp_all
    ultimately show False using assms(4) by linarith
  qed
  show "e \<le> float_exponent x"
  proof (rule ccontr)
    assume "\<not> e \<le> float_exponent x"
    then have a: "float_exponent x + 1 \<le> e" by simp
    then have "float_exponent x < 1023" using assms(2) by simp
    then have "\<bar>x\<bar> < 2 powi (float_exponent x + 1)" by (simp add: float_exponent_gt)
    moreover have "(2::real) powi (float_exponent x + 1) \<le> 2 powi e"
      using a by (intro power_int_increasing) simp_all
    moreover have "e \<noteq> - 1022" using a float_exponent_range(1) [of x] by simp
    ultimately show False using assms(3) by linarith
  qed
qed

lemma ulp_pos: "0 < (2::real) powi k"
  by (simp add: power_int_def)

lemma fl_0 [simp]: "fl 0 = 0"
  by (simp add: fl_def)

lemma fl_minus: "fl (- x) = - fl x"
  by (simp add: fl_def round_half_even_minus)

lemma fl_error_ulp: "\<bar>fl x - x\<bar> \<le> 2 powi (float_exponent x - 52) / 2"
proof -
  let ?q = "(2::real) powi (float_exponent x - 52)"
  have q: "0 < ?q" by (rule ulp_pos)
  have "\<bar>of_int (round_half_even (x / ?q)) - x / ?q\<bar> \<le> 1 / 2"
    by (rule round_half_even_error)
  then have "\<bar>of_int (round_half_even (x / ?q)) - x / ?q\<bar> * ?q \<le> 1 / 2 * ?q"
    using q by (intro mult_right_mono) simp_all
  moreover have "\<bar>of_int (round_half_even (x / ?q)) - x / ?q\<bar> * ?q = \<bar>fl x - x\<bar>"
  proof -
    have "\<bar>of_int (round_half_even (x / ?q)) - x / ?q\<bar> * ?q
          = \<bar>(of_int (round_half_even (x / ?q)) - x / ?q) * ?q\<bar>"
      using q by (simp add: abs_mult)
    also have "(of_int (round_half_even (x / ?q)) - x / ?q) * ?q = fl x - x"
      using q by (simp add: fl_def algebra_simps)
    finally show ?thesis .
  qed
  ultimately show ?thesis by simp
qed

lemma half_ulp: "(2::real) powi (e - 52) / 2 = 2 powi e / 2 ^ 53"
proof -
  have "(2::real) powi (e - 52) = 2 powi e / 2 powi 52"
    by (simp add: power_int_diff)
  then show ?thesis by simp
qed

lemma fl_error_normal:
  assumes "2 powi (- 1022) \<le> \<bar>x\<bar>"
  shows "\<bar>fl x - x\<bar> \<le> \<bar>x\<bar> / 2 ^ 53"
proof -
  have "2 powi (float_exponent x) \<le> \<bar>x\<bar>"
    using float_exponent_le [of x] assms by auto
  then have "2 powi (float_exponent x) / 2 ^ 53 \<le> \<bar>x\<bar> / 2 ^ 53"
    by (simp add: divide_right_mono)
  with fl_error_ulp [of x] show ?thesis by (simp add: half_ulp)
qed

lemma fl_error_subnormal:
  assumes "\<bar>x\<bar> < 2 powi (- 1021)"
  shows "\<bar>fl x - x\<bar> \<le> 2 powi (- 1075)"
proof -
  have "float_exponent x = - 1022"
    by (rule float_exponent_eqI) (use assms in simp_all)
  with fl_error_ulp [of x] show ?thesis by (simp add: half_ulp)
qed

lemma fl_error: "\<bar>fl x - x\<bar> \<le> \<bar>x\<bar> / 2 ^ 53 + 2 powi (- 1075)"
proof (cases "2 powi (- 1022) \<le> \<bar>x\<bar>")
  case True
  from fl_error_normal [OF this] ulp_pos [of "- 1075"] show ?thesis by linarith
next
  case False
  then have "\<bar>x\<bar> < 2 powi (- 1021)"
    using power_int_strict_increasing [of "- 1022" "- 1021" "2::real"] by linarith
  from fl_error_subnormal [OF this] have "\<bar>fl x - x\<bar> \<le> 2 powi (- 1075)" .
  moreover have "0 \<le> \<bar>x\<bar> / 2 ^ 53" by simp
  ultimately show ?thesis by linarith
qed

lemma fl_nonneg: "0 \<le> x \<Longrightarrow> 0 \<le> fl x"
proof -
  assume "0 \<le> x"
  then have "0 \<le> x / 2 powi (float_exponent x - 52)" using ulp_pos by (simp add: less_imp_le)
  from round_half_even_mono [OF this] have "0 \<le> round_half_even (x / 2 powi (float_exponent x - 52))"
    by simp
  then show ?thesis unfolding fl_def using ulp_pos [of "float_exponent x - 52"]
    by (simp add: less_imp_le)
qed

lemma fl_upper:
  assumes "0 \<le> x" "x < 2 powi (float_exponent x + 1)"
  shows "fl x \<le> 2 powi (float_exponent x + 1)"
proof -
  let ?e = "float_exponent x"
  let ?q = "(2::real) powi (?e - 52)"
  have q: "0 < ?q" by (rule ulp_pos)
  have p: "(2::real) powi (?e + 1) = 2 ^ 53 * ?q"
  proof -
    have "(2::real) powi (53 + (?e - 52)) = 2 powi 53 * 2 powi (?e - 52)"
      by (rule power_int_add) simp
    then show ?thesis by (simp add: algebra_simps)
  qed
  have "x / ?q \<le> 2 ^ 53" using assms(2) q unfolding p by (simp add: field_simps)
  then have "x / ?q \<le> of_int (2 ^ 53)" by simp
  from round_half_even_mono [OF this]
  have "round_half_even (x / ?q) \<le> 2 ^ 53" by (simp only: round_half_even_of_int)
  then have "(of_int (round_half_even (x / ?q)) :: real) \<le> 2 ^ 53"
    by (metis of_int_le_iff of_int_numeral of_int_power)
  then have "of_int (round_half_even (x / ?q)) * ?q \<le> 2 ^ 53 * ?q"
    using q by (intro mult_right_mono) simp_all
  then show ?thesis unfolding p fl_def .
qed

lemma fl_lower:
  assumes "2 powi (float_exponent x) \<le> x"
  shows "2 powi (float_exponent x) \<le> fl x"
proof -
  let ?e = "float_exponent x"
  let ?q = "(2::real) powi (?e - 52)"
  have q: "0 < ?q" by (rule ulp_pos)
  have p: "(2::real) powi ?e = 2 ^ 52 * ?q"
  proof -
    have "(2::real) powi (52 + (?e - 52)) = 2 powi 52 * 2 powi (?e - 52)"
      by (rule power_int_add) simp
    then show ?thesis by simp
  qed
  have "2 ^ 52 \<le> x / ?q" using assms q unfolding p by (simp add: field_simps)
  then have "of_int (2 ^ 52) \<le> x / ?q" by simp
  from round_half_even_mono [OF this]
  have "2 ^ 52 \<le> round_half_even (x / ?q)" by (simp only: round_half_even_of_int)
  then have "2 ^ 52 \<le> (of_int (round_half_even (x / ?q)) :: real)"
    by (metis of_int_le_iff of_int_numeral of_int_power)
  then have "2 ^ 52 * ?q \<le> of_int (round_half_even (x / ?q)) * ?q"
    using q by (intro mult_right_mono) simp_all
  then show ?thesis unfolding p fl_def .
qed

lemma fl_mono_nonneg:
  assumes "0 \<le> x" "x \<le> y"
  shows "fl x \<le> fl y"
proof -
  have le: "float_exponent x \<le> float_exponent y"
    using assms by (intro float_exponent_mono) simp
  show ?thesis
  proof (cases "float_exponent x = float_exponent y")
    case True
    let ?q = "(2::real) powi (float_exponent x - 52)"
    have q: "0 < ?q" by (rule ulp_pos)
    have "x / ?q \<le> y / ?q" using assms(2) q by (simp add: divide_right_mono)
    from round_half_even_mono [OF this]
    have "(of_int (round_half_even (x / ?q)) :: real) \<le> of_int (round_half_even (y / ?q))"
      by simp
    then have "of_int (round_half_even (x / ?q)) * ?q \<le> of_int (round_half_even (y / ?q)) * ?q"
      using q by (intro mult_right_mono) simp_all
    then show ?thesis unfolding fl_def True [symmetric] .
  next
    case False
    with le have lt: "float_exponent x < float_exponent y" by simp
    then have "float_exponent x < 1023" using float_exponent_range(2) [of y] by simp
    then have "\<bar>x\<bar> < 2 powi (float_exponent x + 1)" by (simp add: float_exponent_gt)
    then have a: "fl x \<le> 2 powi (float_exponent x + 1)"
      using assms(1) by (intro fl_upper) simp_all
    have "float_exponent y \<noteq> - 1022" using lt float_exponent_range(1) [of x] by simp
    then have "2 powi (float_exponent y) \<le> \<bar>y\<bar>" using float_exponent_le [of y] by simp
    then have b: "2 powi (float_exponent y) \<le> fl y"
      using assms by (intro fl_lower) simp
    have "(2::real) powi (float_exponent x + 1) \<le> 2 powi (float_exponent y)"
      using lt by (intro power_int_increasing) simp_all
    with a b show ?thesis by linarith
  qed
qed

lemma fl_mono:
  assumes "x \<le> y"
  shows "fl x \<le> fl y"
proof -
  consider "0 \<le> x" | "y \<le> 0" | "x < 0" "0 < y" by linarith
  then show ?thesis
  proof cases
    case 1
    then show ?thesis using assms by (rule fl_mono_nonneg)
  next
    case 2
    then have "fl (- y) \<le> fl (- x)" using assms by (intro fl_mono_nonneg) simp_all
    then show ?thesis by (simp add: fl_minus)
  next
    case 3
    then have "0 \<le> fl y" by (intro fl_nonneg) simp
    moreover have "0 \<le> fl (- x)" using 3 by (intro fl_nonneg) simp
    ultimately show ?thesis by (simp add: fl_minus)
  qed
qed

text \<open>
  The value of \<open>fl\<close> at a number of a known binade, and the numbers it leaves unchanged.
\<close>

lemma fl_eqI:
  assumes "- 1022 \<le> e" "e \<le> 1023" "2 powi e \<le> \<bar>x\<bar> \<or> e = - 1022" "\<bar>x\<bar> < 2 powi (e + 1)"
    and "round_half_even (x / 2 powi (e - 52)) = m"
  shows "fl x = of_int m * 2 powi (e - 52)"
  using float_exponent_eqI [OF assms(1-4)] assms(5) by (simp add: fl_def)

lemma fl_exactI:
  assumes "- 1022 \<le> e" "e \<le> 1023" "2 powi e \<le> \<bar>x\<bar> \<or> e = - 1022" "\<bar>x\<bar> < 2 powi (e + 1)"
    and "x / 2 powi (e - 52) = of_int m"
  shows "fl x = x"
proof -
  have "round_half_even (x / 2 powi (e - 52)) = m" by (simp add: assms(5))
  from fl_eqI [OF assms(1-4) this] have "fl x = of_int m * 2 powi (e - 52)" .
  also have "\<dots> = x" using assms(5) ulp_pos [of "e - 52"] by (simp add: field_simps)
  finally show ?thesis .
qed

lemma fl_1 [simp]: "fl 1 = 1"
  by (rule fl_exactI [where e = 0 and m = "2 ^ 52"]) simp_all

lemma fl_numeral_values:
  "fl (12 / 10) = 5404319552844595 / 4503599627370496"
  "fl (18 / 10) = 8106479329266893 / 4503599627370496"
  "fl (15 / 10) = 15 / 10"
  by (simp_all add: fl_eqI [where e = 0 and m = 5404319552844595]
      fl_eqI [where e = 0 and m = 8106479329266893]
      fl_exactI [where e = 0 and m = 6755399441055744] round_half_even_def)

lemma constant_values:
  "SL_ATR_MULT = 5404319552844595 / 4503599627370496"
  "TP_ATR_MULT = 8106479329266893 / 4503599627370496"
  "RR_MIN = 5404319552844595 / 4503599627370496"
  "MIN_LONG_PCT = 15 / 10"
  "MIN_SHORT_PCT = 15 / 10"
  by (simp_all only: SL_ATR_MULT_def TP_ATR_MULT_def RR_MIN_def MIN_LONG_PCT_def
      MIN_SHORT_PCT_def fl_numeral_values)

section \<open>The indicators\<close>

lemma py_index_neg:
  "i < 0 \<Longrightarrow> - int (length xs) \<le> i \<Longrightarrow> py_index xs i = Inr (xs ! nat (int (length xs) + i))"
  by (simp add: py_index_def)

lemma py_index_neg_fail:
  "i < 0 \<Longrightarrow> i < - int (length xs) \<Longrightarrow> py_index xs i = Inl IndexError"
  by (simp add: py_index_def)

lemma rsi_loop_run:
  assumes "\<forall>i \<in> set idx. 1 \<le> i \<and> i \<le> period" and "period + 1 \<le> int (length closes)"
  shows "rsi_loop closes period idx gains losses =
           Inr (gains @ map (\<lambda>i. max (change_at closes period i) 0) idx,
                losses @ map (\<lambda>i. max (- change_at closes period i) 0) idx)"
  using assms
proof (induction idx arbitrary: gains losses)
  case Nil
  then show ?case by simp
next
  case (Cons i rest)
  have b: "1 \<le> i" "i \<le> period" using Cons.prems(1) by auto
  have i1: "py_index closes (- (period + 1) + i) =
              Inr (closes ! nat (int (length closes) + (- (period + 1) + i)))"
    using b Cons.prems(2) by (intro py_index_neg) linarith+
  have i0: "py_index closes (- (period + 2) + i) =
              Inr (closes ! nat (int (length closes) + (- (period + 2) + i)))"
    using b Cons.prems(2) by (intro py_index_neg) linarith+
  have r: "\<forall>i \<in> set rest. 1 \<le> i \<and> i \<le> period" using Cons.prems(1) by simp
  show ?case
    by (simp only: rsi_loop.simps i1 i0 sum.case Let_def Cons.IH [OF r Cons.prems(2)]
        change_at_def list.map append_assoc append_Cons append_Nil)
qed

lemma changes_as_window:
  assumes "0 < period" and "period + 1 \<le> int (length closes)"
  shows "map (change_at closes period) [1..period] = window_changes closes period"
proof -
  obtain p where p: "period = int p" "0 < p" using assms(1) by (metis zero_less_imp_eq_int)
  have n: "Suc p \<le> length closes" using assms(2) p by linarith
  have sl: "py_last_slice closes (period + 1) = drop (length closes - Suc p) closes"
    using p by (simp add: py_last_slice_def nat_add_distrib)
  show ?thesis
  proof (rule nth_equalityI)
    show "length (map (change_at closes period) [1..period]) = length (window_changes closes period)"
      unfolding window_changes_def sl using n p by (simp add: deltas_def)
  next
    fix k assume "k < length (map (change_at closes period) [1..period])"
    then have k: "k < p" using p by simp
    have a: "nat (int (length closes) + (- (period + 1) + (1 + int k))) = length closes - Suc p + Suc k"
      using p n k by linarith
    have b: "nat (int (length closes) + (- (period + 2) + (1 + int k))) = length closes - Suc p + k"
      using p n k by linarith
    have "map (change_at closes period) [1..period] ! k = change_at closes period (1 + int k)"
      using k p by simp
    also have "\<dots> = closes ! (length closes - Suc p + Suc k) - closes ! (length closes - Suc p + k)"
      unfolding change_at_def a b ..
    also have "\<dots> = window_changes closes period ! k"
      unfolding window_changes_def sl using k n by (simp add: deltas_def nth_tl)
    finally show "map (change_at closes period) [1..period] ! k = window_changes closes period ! k" .
  qed
qed

lemma avg_gain_nonneg: "0 < period \<Longrightarrow> 0 \<le> avg_gain closes period"
  by (auto simp: avg_gain_def intro!: divide_nonneg_nonneg sum_list_nonneg)

lemma avg_loss_nonneg: "0 < period \<Longrightarrow> 0 \<le> avg_loss closes period"
  by (auto simp: avg_loss_def intro!: divide_nonneg_nonneg sum_list_nonneg)


lemma rsi_value:
  assumes "0 < period" and "period + 1 \<le> int (length closes)"
  shows "rsi closes period =
           Inr (Some (if avg_loss closes period = 0 then 100
                      else 100 - 100 / (1 + avg_gain closes period / avg_loss closes period)))"
proof -
  have idx: "\<forall>i \<in> set [1..period]. 1 \<le> i \<and> i \<le> period" by simp
  have g: "map (\<lambda>i. max (change_at closes period i) 0) [1..period]
             = map (\<lambda>c. max c 0) (window_changes closes period)"
    unfolding changes_as_window [OF assms, symmetric] by (simp add: o_def)
  have l: "map (\<lambda>i. max (- change_at closes period i) 0) [1..period]
             = map (\<lambda>c. max (- c) 0) (window_changes closes period)"
    unfolding changes_as_window [OF assms, symmetric] by (simp add: o_def)
  have loop: "rsi_loop closes period [1..period] [] [] =
                Inr (map (\<lambda>c. max c 0) (window_changes closes period),
                     map (\<lambda>c. max (- c) 0) (window_changes closes period))"
    using rsi_loop_run [OF idx assms(2), of "[]" "[]"] by (simp only: g l append_Nil)
  have rs: "1 + avg_gain closes period / avg_loss closes period \<noteq> 0"
    using avg_gain_nonneg [OF assms(1), of closes] avg_loss_nonneg [OF assms(1), of closes]
    by (smt (verit) divide_nonneg_nonneg)
  show ?thesis
    using assms rs by (simp add: rsi_def loop Let_def avg_gain_def avg_loss_def)
qed





lemma last_slice_length:
  "0 < p \<Longrightarrow> p \<le> int (length xs) \<Longrightarrow> length (py_last_slice xs p) = nat p"
  by (simp add: py_last_slice_def)

lemma sma_value:
  assumes "0 < period"
  shows "sma values period =
           (if int (length values) < period then Inr None
            else Inr (Some (fl (sum_list (py_last_slice values period) / real_of_int period))))"
proof (cases "int (length values) < period")
  case True
  then show ?thesis by (simp add: sma_def)
next
  case False
  then have len: "length (py_last_slice values period) = nat period"
    using assms by (simp add: last_slice_length)
  then have ne: "py_last_slice values period \<noteq> []" using assms by auto
  show ?thesis using False assms by (simp add: sma_def mean_def ne len)
qed

lemma bollinger_std:
  assumes "py_last_slice closes period \<noteq> []"
  shows "(if 2 \<le> length (py_last_slice closes period) then pstdev (py_last_slice closes period)
          else Inr 0) = Inr (fl (population_std (py_last_slice closes period)))"
proof (cases "2 \<le> length (py_last_slice closes period)")
  case True
  then show ?thesis using assms by (simp add: pstdev_def population_std_def Let_def)
next
  case False
  then have "length (py_last_slice closes period) = 1"
    using assms by (cases "py_last_slice closes period") (auto simp: not_le)
  then obtain x where x: "py_last_slice closes period = [x]"
    by (cases "py_last_slice closes period") auto
  show ?thesis by (simp add: x population_std_def)
qed

lemma bollinger_value:
  assumes "0 < period" and "period \<le> int (length closes)"
  shows "bollinger closes period mult =
           Inr (Some (fl (fl (sum_list (py_last_slice closes period) / real_of_int period)
                        - band_offset closes period mult)),
                Some (fl (sum_list (py_last_slice closes period) / real_of_int period)),
                Some (fl (fl (sum_list (py_last_slice closes period) / real_of_int period)
                        + band_offset closes period mult)))"
proof -
  have len: "length (py_last_slice closes period) = nat period"
    using assms by (simp add: last_slice_length)
  then have ne: "py_last_slice closes period \<noteq> []" using assms by auto
  have s: "sma closes period
           = Inr (Some (fl (sum_list (py_last_slice closes period) / real_of_int period)))"
    using assms by (simp add: sma_value)
  show ?thesis
    using assms by (simp add: bollinger_def s Let_def bollinger_std [OF ne] band_offset_def)
qed

lemma bollinger_bands:
  assumes "bollinger closes period mult = Inr (Some lower, Some mid, Some upper)"
  shows "upper = fl (mid + band_offset closes period mult)
       \<and> lower = fl (mid - band_offset closes period mult)"
proof -
  from assms have ge: "\<not> int (length closes) < period"
    by (auto simp: bollinger_def)
  from assms ge obtain m where m: "sma closes period = Inr (Some m)"
    by (auto simp: bollinger_def Let_def split: sum.splits option.splits if_splits)
  then have ne: "py_last_slice closes period \<noteq> []"
    by (auto simp: sma_def mean_def split: if_splits)
  show ?thesis
    using assms ge by (auto simp add: bollinger_def m Let_def bollinger_std [OF ne] band_offset_def)
qed

lemma rounded_sum_and_difference:
  "\<bar>(fl (m + d) - m) - (m - fl (m - d))\<bar>
     \<le> (\<bar>m + d\<bar> + \<bar>m - d\<bar>) / 2 ^ 53 + 2 powi (- 1074)"
proof -
  have a: "\<bar>fl (m + d) - (m + d)\<bar> \<le> \<bar>m + d\<bar> / 2 ^ 53 + 2 powi (- 1075)" by (rule fl_error)
  have b: "\<bar>fl (m - d) - (m - d)\<bar> \<le> \<bar>m - d\<bar> / 2 ^ 53 + 2 powi (- 1075)" by (rule fl_error)
  have c: "(2::real) powi (- 1074) = 2 powi (- 1075) + 2 powi (- 1075)"
  proof -
    have "(2::real) powi (1 + - 1075) = 2 powi 1 * 2 powi (- 1075)"
      by (rule power_int_add) simp
    then show ?thesis by simp
  qed
  have "(fl (m + d) - m) - (m - fl (m - d)) = (fl (m + d) - (m + d)) + (fl (m - d) - (m - d))"
    by simp
  then have "\<bar>(fl (m + d) - m) - (m - fl (m - d))\<bar>
             \<le> \<bar>fl (m + d) - (m + d)\<bar> + \<bar>fl (m - d) - (m - d)\<bar>"
    by linarith
  with a b show ?thesis unfolding c by (simp add: add_divide_distrib)
qed

text \<open>
  Claim C8, as amended.  Whenever \<open>bollinger\<close> returns three bands, the upper band is
  the float nearest to \<open>mid + d\<close> and the lower band the float nearest to \<open>mid - d\<close>,
  where \<open>d\<close> is the float product of \<open>mult\<close> and the rounded population standard
  deviation of the last \<open>period\<close> closes.  The distance of the upper band from the mid
  line and that of the lower band differ by no more than the rounding of these two
  additions, and both are exactly \<open>d\<close> whenever \<open>mid + d\<close> and \<open>mid - d\<close> are floats
  themselves.  \<open>bollinger\<close> does return three bands for every positive \<open>period\<close> and every
  series of at least \<open>period\<close> closes.
\<close>

theorem bollinger_symmetric_up_to_rounding:
  "(\<forall>lower mid upper.
      bollinger closes period mult = Inr (Some lower, Some mid, Some upper) \<longrightarrow>
        band_offset closes period mult
          = fl (mult * fl (population_std (py_last_slice closes period)))
        \<and> upper = fl (mid + band_offset closes period mult)
        \<and> lower = fl (mid - band_offset closes period mult)
        \<and> \<bar>(upper - mid) - (mid - lower)\<bar>
            \<le> (\<bar>mid + band_offset closes period mult\<bar> + \<bar>mid - band_offset closes period mult\<bar>)
                 / 2 ^ 53 + 2 powi (- 1074)
        \<and> (fl (mid + band_offset closes period mult) = mid + band_offset closes period mult
           \<and> fl (mid - band_offset closes period mult) = mid - band_offset closes period mult
           \<longrightarrow> upper - mid = mid - lower \<and> upper - mid = band_offset closes period mult))
   \<and> (0 < period \<and> period \<le> int (length closes) \<longrightarrow>
        (\<exists>lower mid upper. bollinger closes period mult = Inr (Some lower, Some mid, Some upper)))"
proof -
  have a: "band_offset closes period mult
             = fl (mult * fl (population_std (py_last_slice closes period)))
        \<and> upper = fl (mid + band_offset closes period mult)
        \<and> lower = fl (mid - band_offset closes period mult)
        \<and> \<bar>(upper - mid) - (mid - lower)\<bar>
            \<le> (\<bar>mid + band_offset closes period mult\<bar> + \<bar>mid - band_offset closes period mult\<bar>)
                 / 2 ^ 53 + 2 powi (- 1074)
        \<and> (fl (mid + band_offset closes period mult) = mid + band_offset closes period mult
           \<and> fl (mid - band_offset closes period mult) = mid - band_offset closes period mult
           \<longrightarrow> upper - mid = mid - lower \<and> upper - mid = band_offset closes period mult)"
    if b: "bollinger closes period mult = Inr (Some lower, Some mid, Some upper)"
    for lower mid upper
  proof -
    from bollinger_bands [OF b]
    have u: "upper = fl (mid + band_offset closes period mult)"
      and l: "lower = fl (mid - band_offset closes period mult)" by simp_all
    have e: "\<bar>(upper - mid) - (mid - lower)\<bar>
            \<le> (\<bar>mid + band_offset closes period mult\<bar> + \<bar>mid - band_offset closes period mult\<bar>)
                 / 2 ^ 53 + 2 powi (- 1074)"
      unfolding u l by (rule rounded_sum_and_difference)
    have x: "fl (mid + band_offset closes period mult) = mid + band_offset closes period mult
           \<and> fl (mid - band_offset closes period mult) = mid - band_offset closes period mult
           \<longrightarrow> upper - mid = mid - lower \<and> upper - mid = band_offset closes period mult"
      unfolding u l by simp
    from u l e x show ?thesis by (simp add: band_offset_def)
  qed
  have c: "0 < period \<and> period \<le> int (length closes) \<longrightarrow>
        (\<exists>lower mid upper. bollinger closes period mult = Inr (Some lower, Some mid, Some upper))"
    using bollinger_value [of period closes mult] by blast
  from a c show ?thesis by blast
qed

lemma sqrt_eqI: "0 \<le> y \<Longrightarrow> y * y = x \<Longrightarrow> sqrt x = y"
  by (metis real_sqrt_abs2 abs_of_nonneg power2_eq_square real_sqrt_abs)

lemma fl_small_values:
  "fl 2 = 2" "fl 4 = 4"
  by (rule fl_exactI [where e = 1 and m = "2 ^ 52"], simp_all)
     (rule fl_exactI [where e = 2 and m = "2 ^ 52"], simp_all)

lemma last_slice_two: "py_last_slice [a, b] 2 = [a, b]"
  by (simp add: py_last_slice_def)

lemma population_std_1_3: "population_std [1, 3] = 1"
  by (simp add: population_std_def)

lemma band_offset_1_3: "band_offset [1, 3] 2 2 = 2"
  by (simp add: band_offset_def py_last_slice_def population_std_1_3 fl_small_values)

lemma bollinger_1_3: "bollinger [1, 3] 2 2 = Inr (Some 0, Some 2, Some 4)"
proof -
  have p: "(0::int) < 2" "(2::int) \<le> int (length [1::real, 3])" by simp_all
  have m: "fl (sum_list (py_last_slice [1::real, 3] 2) / real_of_int 2) = 2"
    by (simp add: py_last_slice_def fl_small_values)
  have u: "fl (2 + 2) = 4" "fl (2 - 2) = 0" by (simp_all add: fl_small_values)
  show ?thesis
    unfolding bollinger_value [OF p] band_offset_1_3 m u ..
qed

theorem bollinger_symmetric_up_to_rounding_witness:
  "bollinger [1, 3] 2 2 = Inr (Some 0, Some 2, Some 4)
   \<and> (4::real) = fl (2 + band_offset [1, 3] 2 2)
   \<and> (0::real) = fl (2 - band_offset [1, 3] 2 2)
   \<and> fl (2 + band_offset [1, 3] 2 2) = 2 + band_offset [1, 3] 2 2
   \<and> fl (2 - band_offset [1, 3] 2 2) = 2 - band_offset [1, 3] 2 2
   \<and> (4::real) - 2 = 2 - 0 \<and> (4::real) - 2 = band_offset [1, 3] 2 2"
proof -
  have e: "fl (2 + band_offset [1, 3] 2 2) = 2 + band_offset [1, 3] 2 2
           \<and> fl (2 - band_offset [1, 3] 2 2) = 2 - band_offset [1, 3] 2 2"
    unfolding band_offset_1_3 by (simp add: fl_small_values)
  from bollinger_symmetric_up_to_rounding [of "[1, 3]" 2 2] bollinger_1_3
  have t: "(4::real) = fl (2 + band_offset [1, 3] 2 2)
           \<and> (0::real) = fl (2 - band_offset [1, 3] 2 2)
           \<and> (fl (2 + band_offset [1, 3] 2 2) = 2 + band_offset [1, 3] 2 2
               \<and> fl (2 - band_offset [1, 3] 2 2) = 2 - band_offset [1, 3] 2 2
              \<longrightarrow> (4::real) - 2 = 2 - 0 \<and> (4::real) - 2 = band_offset [1, 3] 2 2)"
    by blast
  from bollinger_1_3 e t show ?thesis by blast
qed

lemma fl_tenth: "fl (1 / 10) = 3602879701896397 / 36028797018963968"
  by (simp add: fl_eqI [where e = "- 4" and m = 7205759403792794] round_half_even_def)

lemma fl_fifth: "fl (2 / 10) = 3602879701896397 / 18014398509481984"
  by (simp add: fl_eqI [where e = "- 3" and m = 7205759403792794] round_half_even_def)

lemma mean_tenth_fifth:
  "fl (sum_list [3602879701896397 / 36028797018963968 :: real,
                 3602879701896397 / 18014398509481984] / real_of_int 2)
   = 1351079888211149 / 9007199254740992"
  by (simp add: fl_eqI [where e = "- 3" and m = 5404319552844596] round_half_even_def)

lemma population_std_tenth_fifth:
  "population_std [3602879701896397 / 36028797018963968,
                   3602879701896397 / 18014398509481984]
   = 3602879701896397 / 72057594037927936"
  unfolding population_std_def by (rule sqrt_eqI) (simp_all add: power2_eq_square)

lemma fl_twentieth:
  "fl (3602879701896397 / 72057594037927936) = 3602879701896397 / 72057594037927936"
  by (rule fl_exactI [where e = "- 5" and m = 7205759403792794]) simp_all

lemma fl_twice_twentieth:
  "fl (2 * (3602879701896397 / 72057594037927936)) = 3602879701896397 / 36028797018963968"
  by (simp add: fl_eqI [where e = "- 4" and m = 7205759403792794] round_half_even_def)

lemma band_offset_tenth_fifth:
  "band_offset [3602879701896397 / 36028797018963968,
                3602879701896397 / 18014398509481984] 2 2
   = 3602879701896397 / 36028797018963968"
  unfolding band_offset_def last_slice_two population_std_tenth_fifth fl_twentieth
    fl_twice_twentieth ..

lemma upper_tenth_fifth:
  "fl (1351079888211149 / 9007199254740992 + 3602879701896397 / 36028797018963968) = 1 / 4"
  by (simp add: fl_eqI [where e = "- 2" and m = 4503599627370496] round_half_even_def)

lemma lower_tenth_fifth:
  "fl (1351079888211149 / 9007199254740992 - 3602879701896397 / 36028797018963968)
   = 1801439850948199 / 36028797018963968"
  by (simp add: fl_eqI [where e = "- 5" and m = 7205759403792796] round_half_even_def)

text \<open>
  Claim C8 as first stated, with exact equality, fails: on the two closes \<open>0.1\<close> and
  \<open>0.2\<close> with \<open>period = 2\<close> and \<open>mult = 2.0\<close> the mid line is \<open>0.15000000000000002\<close>, the
  offset is \<open>0.1\<close>, the sum \<open>mid + 0.1\<close> lies halfway between two floats and is rounded
  down to \<open>0.25\<close>, while \<open>mid - 0.1\<close> is a float: the upper band is nearer to the mid line
  than the lower band.
\<close>

theorem bollinger_not_symmetric_counterexample:
  "bollinger [fl (1 / 10), fl (2 / 10)] 2 2
     = Inr (Some (1801439850948199 / 36028797018963968),
            Some (1351079888211149 / 9007199254740992),
            Some (1 / 4))
   \<and> (1 / 4 :: real) - 1351079888211149 / 9007199254740992
       < 1351079888211149 / 9007199254740992 - 1801439850948199 / 36028797018963968"
proof -
  have p: "(0::int) < 2"
    "(2::int) \<le> int (length [3602879701896397 / 36028797018963968 :: real,
                              3602879701896397 / 18014398509481984])" by simp_all
  have v: "bollinger [fl (1 / 10), fl (2 / 10)] 2 2
     = Inr (Some (1801439850948199 / 36028797018963968),
            Some (1351079888211149 / 9007199254740992),
            Some (1 / 4))"
    unfolding fl_tenth fl_fifth bollinger_value [OF p] band_offset_tenth_fifth last_slice_two
      mean_tenth_fifth upper_tenth_fifth lower_tenth_fifth ..
  have d: "(1 / 4 :: real) - 1351079888211149 / 9007199254740992
       < 1351079888211149 / 9007199254740992 - 1801439850948199 / 36028797018963968"
    by simp
  from v d show ?thesis by blast
qed

lemma atr_loop_nonneg:
  "atr_loop highs lows closes idx trs = Inr out \<Longrightarrow> \<forall>t \<in> set trs. 0 \<le> t
     \<Longrightarrow> \<forall>t \<in> set out. 0 \<le> t"
proof (induction idx arbitrary: trs)
  case Nil
  then show ?case by simp
next
  case (Cons i rest)
  from Cons.prems(1) obtain high low prev_close where
    r: "atr_loop highs lows closes rest
          (trs @ [max (high - low) (max \<bar>high - prev_close\<bar> \<bar>low - prev_close\<bar>)]) = Inr out"
    by (auto simp: Let_def split: sum.splits)
  have "\<forall>t \<in> set (trs @ [max (high - low) (max \<bar>high - prev_close\<bar> \<bar>low - prev_close\<bar>)]). 0 \<le> t"
    using Cons.prems(2) by auto
  from Cons.IH [OF r this] show ?case .
qed

lemma atr_nonneg:
  assumes "atr highs lows closes period = Inr (Some a)"
  shows "0 \<le> a"
proof -
  from assms obtain trs where
    l: "atr_loop highs lows closes [- period..- 1] [] = Inr trs"
    and a: "a = sum_list trs / real (length trs)"
    by (auto simp: atr_def split: if_splits sum.splits)
  have "\<forall>t \<in> set trs. 0 \<le> t" using atr_loop_nonneg [OF l] by simp
  then have "0 \<le> sum_list trs" by (simp add: sum_list_nonneg)
  then show ?thesis by (simp add: a)
qed

lemma atr_loop_run:
  assumes "\<forall>i \<in> set idx. i < 0 \<and> - int (length highs) \<le> i \<and> - int (length lows) \<le> i
                       \<and> - int (length closes) \<le> i - 1"
  shows "atr_loop highs lows closes idx trs =
           Inr (trs @ map (true_range_at highs lows closes) idx)"
  using assms
proof (induction idx arbitrary: trs)
  case Nil
  then show ?case by simp
next
  case (Cons i rest)
  have b: "i < 0" "- int (length highs) \<le> i" "- int (length lows) \<le> i"
          "- int (length closes) \<le> i - 1"
    using Cons.prems by auto
  have h: "py_index highs i = Inr (highs ! nat (int (length highs) + i))"
    using b by (intro py_index_neg) linarith+
  have l: "py_index lows i = Inr (lows ! nat (int (length lows) + i))"
    using b by (intro py_index_neg) linarith+
  have c: "py_index closes (i - 1) = Inr (closes ! nat (int (length closes) + (i - 1)))"
    using b by (intro py_index_neg) linarith+
  have r: "\<forall>i \<in> set rest. i < 0 \<and> - int (length highs) \<le> i \<and> - int (length lows) \<le> i
                       \<and> - int (length closes) \<le> i - 1"
    using Cons.prems by simp
  show ?case
    by (simp only: atr_loop.simps h l c sum.case Let_def Cons.IH [OF r]
        true_range_at_def list.map append_assoc append_Cons append_Nil)
qed

lemma atr_value:
  assumes "0 < period" and "period + 1 \<le> int (length highs)"
    and "length lows = length highs" and "length closes = length highs"
  shows "atr highs lows closes period =
           Inr (Some (sum_list (map (true_range_at highs lows closes) [- period..- 1])
                        / real_of_int period))"
proof -
  have idx: "\<forall>i \<in> set [- period..- 1]. i < 0 \<and> - int (length highs) \<le> i
               \<and> - int (length lows) \<le> i \<and> - int (length closes) \<le> i - 1"
    using assms by auto
  have loop: "atr_loop highs lows closes [- period..- 1] [] =
                Inr (map (true_range_at highs lows closes) [- period..- 1])"
    using atr_loop_run [OF idx, of "[]"] by simp
  have n: "real (nat period) = real_of_int period" using assms(1) by simp
  show ?thesis using assms(1,2) by (simp add: atr_def loop n)
qed

lemma sum_list_map_zero:
  "(\<And>x. x \<in> set xs \<Longrightarrow> f x = (0::real)) \<Longrightarrow> sum_list (map f xs) = 0"
  by (induction xs) auto

text \<open>
  Claim C9.  On a constant-price series of \<open>n\<close> bars, at least \<open>period + 1\<close> of them,
  with high, low and close all equal to \<open>c\<close> at every index, \<open>atr\<close> returns exactly 0.
\<close>

theorem atr_constant_series_zero:
  assumes "0 < period" and "period + 1 \<le> int n"
  shows "atr (replicate n c) (replicate n c) (replicate n c) period = Inr (Some 0)"
proof -
  have z: "true_range_at (replicate n c) (replicate n c) (replicate n c) i = 0"
    if "i \<in> set [- period..- 1]" for i
  proof -
    from that assms have "nat (int n + i) < n" "nat (int n + (i - 1)) < n" by auto
    then show ?thesis by (simp add: true_range_at_def)
  qed
  then have s: "sum_list (map (true_range_at (replicate n c) (replicate n c) (replicate n c))
                  [- period..- 1]) = 0"
    by (rule sum_list_map_zero)
  show ?thesis
    using atr_value [of period "replicate n c" "replicate n c" "replicate n c"] assms
    by (simp add: s)
qed

theorem atr_constant_series_zero_witness:
  "(0::int) < 2 \<and> (2::int) + 1 \<le> int 3 \<and> atr [5, 5, 5] [5, 5, 5] [5, 5, 5] 2 = Inr (Some 0)"
proof -
  have p: "(0::int) < 2" "(2::int) + 1 \<le> int 3" by simp_all
  have r: "replicate 3 (5::real) = [5, 5, 5]" by (simp add: numeral_3_eq_3)
  from atr_constant_series_zero [OF p, of 5] show ?thesis by (simp add: r)
qed

text \<open>
  Claim C6, as amended.  For every positive \<open>period\<close>: \<open>sma\<close> returns \<open>None\<close> exactly
  when it is given fewer than \<open>period\<close> values, \<open>rsi\<close> exactly when it is given fewer
  than \<open>period + 1\<close> closes, \<open>bollinger\<close> returns \<open>(None, None, None)\<close> exactly when it is
  given fewer than \<open>period\<close> closes, and \<open>atr\<close>, given highs, lows and closes of one
  length, returns \<open>None\<close> exactly when there are fewer than \<open>period + 1\<close> bars; on every
  longer input each of them returns numbers and raises nothing.
\<close>

theorem indicators_unavailable_iff_short:
  assumes "0 < period"
  shows "(sma vals period = Inr None \<longleftrightarrow> int (length vals) < period)
       \<and> (\<not> int (length vals) < period \<longrightarrow> (\<exists>v. sma vals period = Inr (Some v)))
       \<and> (rsi closes period = Inr None \<longleftrightarrow> int (length closes) < period + 1)
       \<and> (\<not> int (length closes) < period + 1 \<longrightarrow> (\<exists>v. rsi closes period = Inr (Some v)))
       \<and> (bollinger closes period mult = Inr (None, None, None) \<longleftrightarrow> int (length closes) < period)
       \<and> (\<not> int (length closes) < period \<longrightarrow>
            (\<exists>lower mid upper. bollinger closes period mult = Inr (Some lower, Some mid, Some upper)))
       \<and> (length lows = length highs \<and> length closes = length highs \<longrightarrow>
            (atr highs lows closes period = Inr None \<longleftrightarrow> int (length highs) < period + 1)
          \<and> (\<not> int (length highs) < period + 1 \<longrightarrow>
               (\<exists>v. atr highs lows closes period = Inr (Some v))))"
proof -
  have s: "sma vals period =
           (if int (length vals) < period then Inr None
            else Inr (Some (fl (sum_list (py_last_slice vals period) / real_of_int period))))"
    by (rule sma_value [OF assms])
  have s1: "sma vals period = Inr None \<longleftrightarrow> int (length vals) < period"
    using s by simp
  have s2: "\<not> int (length vals) < period \<longrightarrow> (\<exists>v. sma vals period = Inr (Some v))"
    using s by simp
  have r0: "int (length closes) < period + 1 \<Longrightarrow> rsi closes period = Inr None"
    by (simp add: rsi_def)
  have r2: "\<not> int (length closes) < period + 1 \<longrightarrow> (\<exists>v. rsi closes period = Inr (Some v))"
    using rsi_value [OF assms, of closes] by simp
  have r1: "rsi closes period = Inr None \<longleftrightarrow> int (length closes) < period + 1"
    using r0 r2 by auto
  have b0: "int (length closes) < period \<Longrightarrow> bollinger closes period mult = Inr (None, None, None)"
    by (simp add: bollinger_def)
  have b2: "\<not> int (length closes) < period \<longrightarrow>
            (\<exists>lower mid upper. bollinger closes period mult = Inr (Some lower, Some mid, Some upper))"
    using bollinger_value [OF assms, of closes mult] by simp
  have b1: "bollinger closes period mult = Inr (None, None, None) \<longleftrightarrow> int (length closes) < period"
    using b0 b2 by auto
  have a0: "int (length highs) < period + 1 \<Longrightarrow> atr highs lows closes period = Inr None"
    by (simp add: atr_def)
  have a2: "length lows = length highs \<and> length closes = length highs \<longrightarrow>
            \<not> int (length highs) < period + 1 \<longrightarrow> (\<exists>v. atr highs lows closes period = Inr (Some v))"
    using atr_value [OF assms, of highs lows closes] by simp
  have a1: "length lows = length highs \<and> length closes = length highs \<longrightarrow>
            (atr highs lows closes period = Inr None \<longleftrightarrow> int (length highs) < period + 1)"
    using a0 a2 by auto
  from s1 s2 r1 r2 b1 b2 a1 a2 show ?thesis by blast
qed

theorem indicators_unavailable_iff_short_witness:
  "sma [1, 2] 3 = Inr None \<and> sma [1, 2, 3] 3 = Inr (Some 2)
   \<and> rsi [1, 2, 3] 3 = Inr None \<and> (\<exists>v. rsi [1, 2, 3, 4] 3 = Inr (Some v))
   \<and> bollinger [1, 2] 3 2 = Inr (None, None, None)
   \<and> (\<exists>lower mid upper. bollinger [1, 2, 3] 3 2 = Inr (Some lower, Some mid, Some upper))
   \<and> atr [1, 2, 3] [1, 2, 3] [1, 2, 3] 3 = Inr None
   \<and> (\<exists>v. atr [1, 2, 3, 4] [1, 2, 3, 4] [1, 2, 3, 4] 3 = Inr (Some v))"
proof -
  have p: "(0::int) < 3" by simp
  have a: "sma [1, 2] 3 = Inr None \<and> rsi [1, 2, 3] 3 = Inr None
           \<and> bollinger [1, 2] 3 2 = Inr (None, None, None)
           \<and> atr [1, 2, 3] [1, 2, 3] [1, 2, 3] 3 = Inr None"
    using indicators_unavailable_iff_short [OF p, where vals = "[1, 2]" and closes = "[1, 2, 3]" and mult = 2 and highs = "[1, 2, 3]" and lows = "[1, 2, 3]"]
          indicators_unavailable_iff_short [OF p, where vals = "[1, 2]" and closes = "[1, 2]" and mult = 2 and highs = "[1, 2, 3]" and lows = "[1, 2, 3]"]
    by simp
  have b: "(\<exists>v. rsi [1, 2, 3, 4] 3 = Inr (Some v))
           \<and> (\<exists>v. atr [1, 2, 3, 4] [1, 2, 3, 4] [1, 2, 3, 4] 3 = Inr (Some v))"
    using indicators_unavailable_iff_short [OF p, where vals = "[1, 2, 3]" and closes = "[1, 2, 3, 4]" and mult = 2 and highs = "[1, 2, 3, 4]" and lows = "[1, 2, 3, 4]"]
    by simp
  have c: "\<exists>lower mid upper. bollinger [1, 2, 3] 3 2 = Inr (Some lower, Some mid, Some upper)"
    using indicators_unavailable_iff_short [OF p, where vals = "[1, 2, 3]" and closes = "[1, 2, 3]" and mult = 2 and highs = "[1, 2, 3]" and lows = "[1, 2, 3]"]
    by simp
  have d: "sma [1, 2, 3] 3 = Inr (Some 2)"
    by (simp add: sma_def mean_def py_last_slice_def fl_small_values)
  from a b c d show ?thesis by blast
qed

text \<open>
  Claim C6 as first stated, for every input, fails: with \<open>period = 0\<close> a series of one
  close is not too short for \<open>rsi\<close>, which then divides by \<open>period\<close>; and \<open>atr\<close> checks
  the length of \<open>highs\<close> only, so three highs and closes with a single low raise
  \<open>IndexError\<close> at \<open>lows[-2]\<close>.
\<close>

theorem indicators_not_total_counterexample:
  "\<not> int (length [1::real]) < 0 + 1 \<and> rsi [1] 0 = Inl ZeroDivisionError
   \<and> \<not> int (length [1::real, 1, 1]) < 2 + 1 \<and> atr [1, 1, 1] [1] [1, 1, 1] 2 = Inl IndexError"
  by (simp add: rsi_def atr_def py_index_def upto.simps)

end
